theory Spec2Isabelle
  imports Main "HOL-Library.Word"
begin

unbundle bit_operations_syntax

section \<open>The archive service of the FS module (core/hle/service/fs/archive.cpp)\<close>

text \<open>
  The file has two halves.  The first is the pair of session objects \<open>File\<close> and
  \<open>Directory\<close>, whose \<open>SyncRequest\<close> decodes the command buffer and calls the
  backend.  The second is the registry of archive factories (\<open>id_code_map\<close>), the
  table of open archives (\<open>handle_map\<close>) and the operations on them.

  Logging (\<open>LOG_TRACE\<close>, \<open>LOG_ERROR\<close>, ...) has no effect on any value and is left
  out.
\<close>

subsection \<open>Machine integers\<close>

type_synonym u32 = "32 word"
type_synonym u64 = "64 word"

subsection \<open>Result codes\<close>

text \<open>
  Modelled from the spec: the header core/hle/result.h, which declares
  \<open>ResultCode\<close>, \<open>RESULT_SUCCESS\<close>, \<open>UnimplementedFunction\<close>, \<open>ResultVal\<close> and the four
  error enumerations, is not among the sources.  The spec (section 6) gives an error as
  the tuple (description, module, summary, level) and names the success sentinel apart
  from every error.  The enumerators below are the ones archive.cpp writes, and
  \<open>NotImplemented\<close>, \<open>NotSupported\<close> for the generic Unimplemented error.
\<close>

datatype ErrorDescription = FS_NotFound | NoData | NotImplemented | InvalidHandle | NotFound

datatype ErrorModule = FS

datatype ErrorSummary = NothingHappened | NotFound | NotSupported | InvalidArgument | Canceled

datatype ErrorLevel = Status | Permanent

datatype ResultCode =
    RESULT_SUCCESS
  | ResultCode ErrorDescription ErrorModule ErrorSummary ErrorLevel

text \<open>
  Modelled from the spec: \<open>UnimplementedFunction\<close> of core/hle/result.h (absent), the
  "generic Unimplemented" error of the given module.
\<close>

definition UnimplementedFunction :: "ErrorModule \<Rightarrow> ResultCode" where
  "UnimplementedFunction m =
     ResultCode NotImplemented m NotSupported Permanent"

text \<open>archive.cpp, line 53: returned when a function is passed an invalid handle.\<close>

definition ERR_INVALID_HANDLE :: ResultCode where
  "ERR_INVALID_HANDLE =
     ResultCode InvalidHandle FS InvalidArgument Permanent"

text \<open>
  \<open>ResultVal<T>\<close> holds either an error code or a value; \<open>Inl\<close> is the error.
  \<open>MakeResult<T>(v)\<close> is \<open>Inr v\<close>.
\<close>

type_synonym 'a ResultVal = "ResultCode + 'a"

text \<open>
  Modelled from the spec: the 32-bit encoding \<open>ResultCode::raw\<close> is declared in the
  absent header.  Every function below that writes a status word takes the encoding as
  its first argument \<open>raw\<close>, so the theorems hold for whatever the encoding is.
  \<open>raw_packed\<close> is one encoding of the shape the spec describes (success is 0, an error
  packs its four fields into disjoint bit ranges with the top bit set); it is used only
  to evaluate concrete examples.
\<close>

fun ErrorDescription_bits :: "ErrorDescription \<Rightarrow> u32" where
  "ErrorDescription_bits FS_NotFound = 100"
| "ErrorDescription_bits NoData = 1007"
| "ErrorDescription_bits NotImplemented = 1012"
| "ErrorDescription_bits InvalidHandle = 1015"
| "ErrorDescription_bits ErrorDescription.NotFound = 1018"

fun ErrorModule_bits :: "ErrorModule \<Rightarrow> u32" where
  "ErrorModule_bits FS = 17"

fun ErrorSummary_bits :: "ErrorSummary \<Rightarrow> u32" where
  "ErrorSummary_bits NothingHappened = 1"
| "ErrorSummary_bits ErrorSummary.NotFound = 4"
| "ErrorSummary_bits NotSupported = 6"
| "ErrorSummary_bits InvalidArgument = 7"
| "ErrorSummary_bits Canceled = 9"

fun ErrorLevel_bits :: "ErrorLevel \<Rightarrow> u32" where
  "ErrorLevel_bits Status = 25"
| "ErrorLevel_bits Permanent = 27"

fun raw_packed :: "ResultCode \<Rightarrow> u32" where
  "raw_packed RESULT_SUCCESS = 0"
| "raw_packed (ResultCode d m s l) =
     ErrorDescription_bits d OR push_bit 10 (ErrorModule_bits m)
       OR push_bit 21 (ErrorSummary_bits s) OR push_bit 27 (ErrorLevel_bits l)"

subsection \<open>Opcodes\<close>

text \<open>\<open>enum class FileCommand : u32\<close>, lines 57-72.\<close>

definition FileCommand_Dummy1 :: u32 where "FileCommand_Dummy1 = 0x000100C6"
definition FileCommand_Control :: u32 where "FileCommand_Control = 0x040100C4"
definition FileCommand_OpenSubFile :: u32 where "FileCommand_OpenSubFile = 0x08010100"
definition FileCommand_Read :: u32 where "FileCommand_Read = 0x080200C2"
definition FileCommand_Write :: u32 where "FileCommand_Write = 0x08030102"
definition FileCommand_GetSize :: u32 where "FileCommand_GetSize = 0x08040000"
definition FileCommand_SetSize :: u32 where "FileCommand_SetSize = 0x08050080"
definition FileCommand_GetAttributes :: u32 where "FileCommand_GetAttributes = 0x08060000"
definition FileCommand_SetAttributes :: u32 where "FileCommand_SetAttributes = 0x08070040"
definition FileCommand_Close :: u32 where "FileCommand_Close = 0x08080000"
definition FileCommand_Flush :: u32 where "FileCommand_Flush = 0x08090000"
definition FileCommand_SetPriority :: u32 where "FileCommand_SetPriority = 0x080A0040"
definition FileCommand_GetPriority :: u32 where "FileCommand_GetPriority = 0x080B0000"
definition FileCommand_OpenLinkFile :: u32 where "FileCommand_OpenLinkFile = 0x080C0000"

text \<open>The whole enumeration, in the order of its declaration.\<close>

definition FileCommand_table :: "u32 list" where
  "FileCommand_table =
     [FileCommand_Dummy1, FileCommand_Control, FileCommand_OpenSubFile, FileCommand_Read,
      FileCommand_Write, FileCommand_GetSize, FileCommand_SetSize,
      FileCommand_GetAttributes, FileCommand_SetAttributes, FileCommand_Close,
      FileCommand_Flush, FileCommand_SetPriority, FileCommand_GetPriority,
      FileCommand_OpenLinkFile]"

text \<open>\<open>enum class DirectoryCommand : u32\<close>, lines 75-80.\<close>

definition DirectoryCommand_Dummy1 :: u32 where "DirectoryCommand_Dummy1 = 0x000100C6"
definition DirectoryCommand_Control :: u32 where "DirectoryCommand_Control = 0x040100C4"
definition DirectoryCommand_Read :: u32 where "DirectoryCommand_Read = 0x08010042"
definition DirectoryCommand_Close :: u32 where "DirectoryCommand_Close = 0x08020000"

definition DirectoryCommand_table :: "u32 list" where
  "DirectoryCommand_table =
     [DirectoryCommand_Dummy1, DirectoryCommand_Control, DirectoryCommand_Read,
      DirectoryCommand_Close]"

subsection \<open>The session objects and what their requests reach\<close>

text \<open>
  \<open>SyncRequest\<close> reads and writes the command buffer of the current thread
  (\<open>Kernel::GetCommandBuffer()\<close>, an array of 32-bit words indexed by constants only),
  passes guest addresses to the backend (\<open>Memory::GetPointer\<close>) and calls the backend
  behind its \<open>unique_ptr\<close>.  The record \<open>Directory\<close> holds these three; \<open>File\<close> adds the
  field \<open>priority\<close> and the kernel handle table that \<open>OpenLinkFile\<close> writes.  The field
  \<open>path\<close> of both classes is set by the constructor and read by the log lines only.
  The types \<open>'b\<close> (backend object and the host file behind it), \<open>'m\<close> (guest memory) and
  \<open>'k\<close> (kernel handle table) belong to code outside archive.cpp and stay abstract.
\<close>

record ('b, 'm) Directory =
  cmd_buff :: "nat \<Rightarrow> u32"
  memory :: 'm
  backend :: 'b

record ('b, 'm, 'k) File = "('b, 'm) Directory" +
  priority :: u32
  handle_table :: 'k

text \<open>
  The virtual interface \<open>FileSys::FileBackend\<close> (its header is absent), as archive.cpp
  calls it: each method gets the arguments of the call and returns the value the call
  returns together with the objects it may have changed.  \<open>Read\<close> and \<open>Write\<close> return a
  \<open>size_t\<close>, taken as 64 bits wide; the results of \<open>SetSize\<close> and \<open>Close\<close> are dropped by
  the caller.  \<open>HandleTable_Create\<close> is \<open>Kernel::g_handle_table.Create(this)\<close> and
  \<open>INVALID_HANDLE\<close> the constant of the kernel's header.
\<close>

record ('b, 'm, 'k) FileExt =
  FileBackend_Read :: "u64 \<Rightarrow> u32 \<Rightarrow> u32 \<Rightarrow> 'b \<Rightarrow> 'm \<Rightarrow> u64 \<times> 'b \<times> 'm"
  FileBackend_Write :: "u64 \<Rightarrow> u32 \<Rightarrow> u32 \<Rightarrow> u32 \<Rightarrow> 'b \<Rightarrow> 'm \<Rightarrow> u64 \<times> 'b \<times> 'm"
  FileBackend_GetSize :: "'b \<Rightarrow> u64 \<times> 'b"
  FileBackend_SetSize :: "u64 \<Rightarrow> 'b \<Rightarrow> 'b"
  FileBackend_Close :: "'b \<Rightarrow> 'b"
  FileBackend_Flush :: "'b \<Rightarrow> 'b"
  HandleTable_Create :: "'k \<Rightarrow> u32 ResultVal \<times> 'k"
  INVALID_HANDLE :: u32

text \<open>The virtual interface \<open>FileSys::DirectoryBackend\<close>; \<open>Read\<close> returns a \<open>u32\<close>.\<close>

record ('b, 'm) DirectoryExt =
  DirectoryBackend_Read :: "u32 \<Rightarrow> u32 \<Rightarrow> 'b \<Rightarrow> 'm \<Rightarrow> u32 \<times> 'b \<times> 'm"
  DirectoryBackend_Close :: "'b \<Rightarrow> 'b"

text \<open>\<open>ResultVal::ValueOr\<close>.\<close>

definition ValueOr :: "'a ResultVal \<Rightarrow> 'a \<Rightarrow> 'a" where
  "ValueOr r d = (case r of Inl e \<Rightarrow> d | Inr v \<Rightarrow> v)"

text \<open>\<open>lo | ((u64)hi) << 32\<close>, lines 95, 107 and 128.\<close>

definition make_u64 :: "u32 \<Rightarrow> u32 \<Rightarrow> u64" where
  "make_u64 lo hi = (ucast lo :: u64) OR push_bit 32 (ucast hi :: u64)"

text \<open>
  The two statements after either switch (lines 177-178 and 219-220):
  \<open>cmd_buff[1] = RESULT_SUCCESS.raw; return MakeResult<bool>(false);\<close>
\<close>

definition no_error ::
  "(ResultCode \<Rightarrow> u32) \<Rightarrow> ('b, 'm, 'z) Directory_scheme \<Rightarrow>
     bool ResultVal \<times> ('b, 'm, 'z) Directory_scheme" where
  "no_error raw s = (Inr False, s\<lparr>cmd_buff := (cmd_buff s)(1 := raw RESULT_SUCCESS)\<rparr>)"

text \<open>\<open>File::SyncRequest\<close>, lines 87-179; the cases stand in the order of the switch.\<close>

definition File_SyncRequest ::
  "(ResultCode \<Rightarrow> u32) \<Rightarrow> ('b, 'm, 'k) FileExt \<Rightarrow> ('b, 'm, 'k) File \<Rightarrow>
     bool ResultVal \<times> ('b, 'm, 'k) File" where
  "File_SyncRequest raw ext f =
    (let cmd = cmd_buff f 0 in
     if cmd = FileCommand_Read then
       (let offset = make_u64 (cmd_buff f 1) (cmd_buff f 2);
            len = cmd_buff f 3;
            address = cmd_buff f 5;
            (n, b, m) = FileBackend_Read ext offset len address (backend f) (memory f)
        in no_error raw
             (f\<lparr>cmd_buff := (cmd_buff f)(2 := ucast n), memory := m, backend := b\<rparr>))
     else if cmd = FileCommand_Write then
       (let offset = make_u64 (cmd_buff f 1) (cmd_buff f 2);
            len = cmd_buff f 3;
            flush = cmd_buff f 4;
            address = cmd_buff f 6;
            (n, b, m) = FileBackend_Write ext offset len flush address (backend f) (memory f)
        in no_error raw
             (f\<lparr>cmd_buff := (cmd_buff f)(2 := ucast n), memory := m, backend := b\<rparr>))
     else if cmd = FileCommand_GetSize then
       (let (size, b) = FileBackend_GetSize ext (backend f)
        in no_error raw
             (f\<lparr>cmd_buff := (cmd_buff f)(2 := ucast size, 3 := ucast (drop_bit 32 size)),
                backend := b\<rparr>))
     else if cmd = FileCommand_SetSize then
       (let size = make_u64 (cmd_buff f 1) (cmd_buff f 2)
        in no_error raw (f\<lparr>backend := FileBackend_SetSize ext size (backend f)\<rparr>))
     else if cmd = FileCommand_Close then
       no_error raw (f\<lparr>backend := FileBackend_Close ext (backend f)\<rparr>)
     else if cmd = FileCommand_Flush then
       no_error raw (f\<lparr>backend := FileBackend_Flush ext (backend f)\<rparr>)
     else if cmd = FileCommand_OpenLinkFile then
       (let (r, k) = HandleTable_Create ext (handle_table f)
        in no_error raw
             (f\<lparr>cmd_buff := (cmd_buff f)(3 := ValueOr r (INVALID_HANDLE ext)),
                handle_table := k\<rparr>))
     else if cmd = FileCommand_SetPriority then
       no_error raw (f\<lparr>priority := cmd_buff f 1\<rparr>)
     else if cmd = FileCommand_GetPriority then
       no_error raw (f\<lparr>cmd_buff := (cmd_buff f)(2 := priority f)\<rparr>)
     else
       (let error = UnimplementedFunction FS
        in (Inl error, f\<lparr>cmd_buff := (cmd_buff f)(1 := raw error)\<rparr>)))"

text \<open>\<open>Directory::SyncRequest\<close>, lines 186-221.\<close>

definition Directory_SyncRequest ::
  "(ResultCode \<Rightarrow> u32) \<Rightarrow> ('b, 'm) DirectoryExt \<Rightarrow> ('b, 'm) Directory \<Rightarrow>
     bool ResultVal \<times> ('b, 'm) Directory" where
  "Directory_SyncRequest raw ext d =
    (let cmd = cmd_buff d 0 in
     if cmd = DirectoryCommand_Read then
       (let count = cmd_buff d 1;
            address = cmd_buff d 3;
            (n, b, m) = DirectoryBackend_Read ext count address (backend d) (memory d)
        in no_error raw (d\<lparr>cmd_buff := (cmd_buff d)(2 := n), memory := m, backend := b\<rparr>))
     else if cmd = DirectoryCommand_Close then
       no_error raw (d\<lparr>backend := DirectoryBackend_Close ext (backend d)\<rparr>)
     else
       (let error = UnimplementedFunction FS
        in (Inr False, d\<lparr>cmd_buff := (cmd_buff d)(1 := raw error)\<rparr>)))"

subsection \<open>The registry of archive types and the table of open archives\<close>

text \<open>
  Modelled from the spec: \<open>ArchiveIdCode\<close> and \<open>ArchiveHandle\<close> are declared in
  archive.h (absent).  The enumerators are the six that \<open>ArchiveInit\<close> registers and the
  ROM file system named by the spec; the handle is the spec's 64-bit key.
\<close>

datatype ArchiveIdCode =
  SDMC | SaveData | ExtSaveData | SharedExtSaveData | SaveDataCheck | SystemSaveData | RomFS

type_synonym ArchiveHandle = u64

text \<open>
  The three statics of lines 232-238 and the state \<open>host\<close> that the factories and
  backends act on (the host file system, the backend objects themselves).  A factory
  \<open>'f\<close> and an open backend \<open>'a\<close> are the objects behind the \<open>unique_ptr\<close>s, compared by
  identity; a \<open>unique_ptr\<close> stored in \<open>handle_map\<close> is the non-null result of a factory's
  successful \<open>Open\<close>.
\<close>

record ('f, 'a, 'w) Archives =
  id_code_map :: "ArchiveIdCode \<rightharpoonup> 'f"
  handle_map :: "ArchiveHandle \<rightharpoonup> 'a"
  next_handle :: ArchiveHandle
  host :: 'w

text \<open>
  The virtual interfaces \<open>FileSys::ArchiveFactory\<close> and \<open>FileSys::ArchiveBackend\<close> (their
  headers are absent), as archive.cpp calls them on an object, with the path type \<open>'p\<close>
  opaque.  \<open>ArchiveBackend_delete\<close> is what destroying the \<open>unique_ptr\<close> of an erased
  entry runs.
\<close>

record ('f, 'a, 'p, 'w) ArchiveExt =
  ArchiveFactory_Initialize :: "'f \<Rightarrow> 'w \<Rightarrow> bool \<times> 'w"
  ArchiveFactory_Open :: "'f \<Rightarrow> 'p \<Rightarrow> 'w \<Rightarrow> 'a ResultVal \<times> 'w"
  ArchiveFactory_Format :: "'f \<Rightarrow> 'p \<Rightarrow> 'w \<Rightarrow> ResultCode \<times> 'w"
  ArchiveBackend_RenameFile :: "'a \<Rightarrow> 'p \<Rightarrow> 'p \<Rightarrow> 'w \<Rightarrow> bool \<times> 'w"
  ArchiveBackend_RenameDirectory :: "'a \<Rightarrow> 'p \<Rightarrow> 'p \<Rightarrow> 'w \<Rightarrow> bool \<times> 'w"
  ArchiveBackend_delete :: "'a \<Rightarrow> 'w \<Rightarrow> 'w"

text \<open>
  Modelled from the spec: \<open>ASSERT_MSG\<close> of common/assert.h (absent) is the fatal
  assertion; a function that can fail it returns \<open>AssertFailed\<close> where the program
  stops and \<open>Returns v\<close> otherwise.
\<close>

datatype 'a asserted = AssertFailed | Returns 'a

text \<open>\<open>GetArchive\<close>, lines 240-243; \<open>None\<close> is \<open>nullptr\<close>.\<close>

definition GetArchive :: "('f, 'a, 'w) Archives \<Rightarrow> ArchiveHandle \<Rightarrow> 'a option" where
  "GetArchive s handle = handle_map s handle"

text \<open>
  The loop of lines 258-260, \<open>while (handle_map.count(next_handle) != 0) ++next_handle;\<close>
  from the counter's value to the value it stops at.  The counter wraps around at
  \<open>2 ^ 64\<close>; on a table with no free key the loop never ends, which is \<open>None\<close>.
\<close>

partial_function (option) skip_present ::
  "(ArchiveHandle \<rightharpoonup> 'a) \<Rightarrow> ArchiveHandle \<Rightarrow> ArchiveHandle option" where
  "skip_present m h = (if m h \<noteq> None then skip_present m (h + 1) else Some h)"

declare skip_present.simps [code]

text \<open>\<open>OpenArchive\<close>, lines 245-263; \<open>None\<close> when the loop never ends.\<close>

definition OpenArchive ::
  "('f, 'a, 'p, 'w) ArchiveExt \<Rightarrow> ArchiveIdCode \<Rightarrow> 'p \<Rightarrow> ('f, 'a, 'w) Archives \<Rightarrow>
     (ArchiveHandle ResultVal \<times> ('f, 'a, 'w) Archives) option" where
  "OpenArchive ext id_code archive_path s =
    (case id_code_map s id_code of
       None \<Rightarrow>
         Some (Inl (ResultCode ErrorDescription.NotFound FS ErrorSummary.NotFound Permanent), s)
     | Some factory \<Rightarrow>
        (case ArchiveFactory_Open ext factory archive_path (host s) of
           (Inl e, w) \<Rightarrow> Some (Inl e, s\<lparr>host := w\<rparr>)
         | (Inr res, w) \<Rightarrow>
            (case skip_present (handle_map s) (next_handle s) of
               None \<Rightarrow> None
             | Some h \<Rightarrow>
                 Some (Inr h, s\<lparr>handle_map := (handle_map s)(h \<mapsto> res),
                                 next_handle := h + 1, host := w\<rparr>))))"

text \<open>\<open>CloseArchive\<close>, lines 265-270: \<open>erase\<close> returns 0 exactly when the key is absent.\<close>

definition CloseArchive ::
  "('f, 'a, 'p, 'w) ArchiveExt \<Rightarrow> ArchiveHandle \<Rightarrow> ('f, 'a, 'w) Archives \<Rightarrow>
     ResultCode \<times> ('f, 'a, 'w) Archives" where
  "CloseArchive ext handle s =
    (case handle_map s handle of
       None \<Rightarrow> (ERR_INVALID_HANDLE, s)
     | Some a \<Rightarrow>
         (RESULT_SUCCESS,
          s\<lparr>handle_map := (handle_map s)(handle := None),
            host := ArchiveBackend_delete ext a (host s)\<rparr>))"

text \<open>
  \<open>RegisterArchiveType\<close>, lines 274-283: \<open>emplace\<close> inserts only under a key that is not
  there yet, and the assertion is on whether it did.
\<close>

definition RegisterArchiveType ::
  "'f \<Rightarrow> ArchiveIdCode \<Rightarrow> ('f, 'a, 'w) Archives \<Rightarrow>
     (ResultCode \<times> ('f, 'a, 'w) Archives) asserted" where
  "RegisterArchiveType factory id_code s =
    (let inserted = (id_code_map s id_code = None);
         s' = (if inserted then s\<lparr>id_code_map := (id_code_map s)(id_code \<mapsto> factory)\<rparr>
               else s)
     in if \<not> inserted then AssertFailed else Returns (RESULT_SUCCESS, s'))"

text \<open>\<open>RenameFileBetweenArchives\<close>, lines 312-331.\<close>

definition RenameFileBetweenArchives ::
  "('f, 'a, 'p, 'w) ArchiveExt \<Rightarrow> ArchiveHandle \<Rightarrow> 'p \<Rightarrow> ArchiveHandle \<Rightarrow> 'p \<Rightarrow>
     ('f, 'a, 'w) Archives \<Rightarrow> ResultCode \<times> ('f, 'a, 'w) Archives" where
  "RenameFileBetweenArchives ext src_archive_handle src_path dest_archive_handle dest_path s =
    (case (GetArchive s src_archive_handle, GetArchive s dest_archive_handle) of
       (Some src_archive, Some dest_archive) \<Rightarrow>
         if src_archive = dest_archive then
           (let (renamed, w) =
                  ArchiveBackend_RenameFile ext src_archive src_path dest_path (host s)
            in if renamed then (RESULT_SUCCESS, s\<lparr>host := w\<rparr>)
               else (ResultCode NoData FS NothingHappened Status, s\<lparr>host := w\<rparr>))
         else (UnimplementedFunction FS, s)
     | _ \<Rightarrow> (ERR_INVALID_HANDLE, s))"

text \<open>\<open>RenameDirectoryBetweenArchives\<close>, lines 363-382.\<close>

definition RenameDirectoryBetweenArchives ::
  "('f, 'a, 'p, 'w) ArchiveExt \<Rightarrow> ArchiveHandle \<Rightarrow> 'p \<Rightarrow> ArchiveHandle \<Rightarrow> 'p \<Rightarrow>
     ('f, 'a, 'w) Archives \<Rightarrow> ResultCode \<times> ('f, 'a, 'w) Archives" where
  "RenameDirectoryBetweenArchives ext src_archive_handle src_path dest_archive_handle dest_path s =
    (case (GetArchive s src_archive_handle, GetArchive s dest_archive_handle) of
       (Some src_archive, Some dest_archive) \<Rightarrow>
         if src_archive = dest_archive then
           (let (renamed, w) =
                  ArchiveBackend_RenameDirectory ext src_archive src_path dest_path (host s)
            in if renamed then (RESULT_SUCCESS, s\<lparr>host := w\<rparr>)
               else (ResultCode NoData FS NothingHappened Status, s\<lparr>host := w\<rparr>))
         else (UnimplementedFunction FS, s)
     | _ \<Rightarrow> (ERR_INVALID_HANDLE, s))"

text \<open>\<open>FormatArchive\<close>, lines 400-407.\<close>

definition FormatArchive ::
  "('f, 'a, 'p, 'w) ArchiveExt \<Rightarrow> ArchiveIdCode \<Rightarrow> 'p \<Rightarrow> ('f, 'a, 'w) Archives \<Rightarrow>
     ResultCode \<times> ('f, 'a, 'w) Archives" where
  "FormatArchive ext id_code path s =
    (case id_code_map s id_code of
       None \<Rightarrow> (UnimplementedFunction FS, s)
     | Some factory \<Rightarrow>
         (let (r, w) = ArchiveFactory_Format ext factory path (host s)
          in (r, s\<lparr>host := w\<rparr>)))"

text \<open>
  \<open>ArchiveInit\<close>, lines 476-515.  The six factories it constructs are the argument
  \<open>fs\<close>; \<open>AddService\<close> touches none of the statics.  \<open>register\<close> is a call of
  \<open>RegisterArchiveType\<close> whose result code is dropped, \<open>register_if_initialized\<close> the
  \<open>if (factory->Initialize()) RegisterArchiveType(...); else LOG_ERROR(...)\<close> of lines
  487-490, 497-500 and 503-507, and \<open>and_then\<close> runs the next statement unless the
  program has stopped.
\<close>

record 'f Factories =
  sdmc_factory :: 'f
  savedata_factory :: 'f
  extsavedata_factory :: 'f
  sharedextsavedata_factory :: 'f
  savedatacheck_factory :: 'f
  systemsavedata_factory :: 'f

definition and_then :: "'a asserted \<Rightarrow> ('a \<Rightarrow> 'b asserted) \<Rightarrow> 'b asserted" where
  "and_then r k = (case r of AssertFailed \<Rightarrow> AssertFailed | Returns v \<Rightarrow> k v)"

definition register ::
  "'f \<Rightarrow> ArchiveIdCode \<Rightarrow> ('f, 'a, 'w) Archives \<Rightarrow> ('f, 'a, 'w) Archives asserted" where
  "register factory id_code s =
     and_then (RegisterArchiveType factory id_code s) (\<lambda>(r, s'). Returns s')"

definition register_if_initialized ::
  "('f, 'a, 'p, 'w) ArchiveExt \<Rightarrow> 'f \<Rightarrow> ArchiveIdCode \<Rightarrow> ('f, 'a, 'w) Archives \<Rightarrow>
     ('f, 'a, 'w) Archives asserted" where
  "register_if_initialized ext factory id_code s =
    (let (ok, w) = ArchiveFactory_Initialize ext factory (host s)
     in if ok then register factory id_code (s\<lparr>host := w\<rparr>) else Returns (s\<lparr>host := w\<rparr>))"

definition ArchiveInit ::
  "('f, 'a, 'p, 'w) ArchiveExt \<Rightarrow> 'f Factories \<Rightarrow> ('f, 'a, 'w) Archives \<Rightarrow>
     ('f, 'a, 'w) Archives asserted" where
  "ArchiveInit ext fs s =
     and_then (register_if_initialized ext (sdmc_factory fs) SDMC (s\<lparr>next_handle := 1\<rparr>))
    (\<lambda>s. and_then (register (savedata_factory fs) SaveData s)
    (\<lambda>s. and_then (register_if_initialized ext (extsavedata_factory fs) ExtSaveData s)
    (\<lambda>s. and_then
            (register_if_initialized ext (sharedextsavedata_factory fs) SharedExtSaveData s)
    (\<lambda>s. and_then (register (savedatacheck_factory fs) SaveDataCheck s)
    (\<lambda>s. register (systemsavedata_factory fs) SystemSaveData s)))))"

text \<open>
  The case labels of the two switches, in their order; every other opcode takes the
  \<open>default\<close> branch.
\<close>

definition File_cases :: "u32 list" where
  "File_cases =
     [FileCommand_Read, FileCommand_Write, FileCommand_GetSize, FileCommand_SetSize,
      FileCommand_Close, FileCommand_Flush, FileCommand_OpenLinkFile,
      FileCommand_SetPriority, FileCommand_GetPriority]"

definition Directory_cases :: "u32 list" where
  "Directory_cases = [DirectoryCommand_Read, DirectoryCommand_Close]"

text \<open>
  The counter is ahead of the table: it is not 0 and every key of the table lies below
  it.  \<open>ArchiveInit\<close> sets the counter to 1, and each \<open>OpenArchive\<close> leaves it one above
  the key it inserted, so this holds until the 64-bit counter wraps around.
\<close>

definition counter_ahead :: "('f, 'a, 'w) Archives \<Rightarrow> bool" where
  "counter_ahead s \<longleftrightarrow> next_handle s \<noteq> 0 \<and> (\<forall>k \<in> dom (handle_map s). k < next_handle s)"

subsection \<open>Concrete backends and states, for evaluation\<close>

text \<open>
  A file backend over a list of bytes: \<open>Read\<close> hands out what is left of the file from
  the offset on, at most \<open>len\<close> bytes, and records the bytes it stored at the guest
  address; the handle table is a counter.
\<close>

definition ex_FileExt :: "(8 word list, (u32 \<times> 8 word list) list, nat) FileExt" where
  "ex_FileExt =
    \<lparr>FileBackend_Read = (\<lambda>offset len address b m.
        (let bytes = take (unat len) (drop (unat offset) b)
         in (of_nat (length bytes), b, (address, bytes) # m))),
     FileBackend_Write = (\<lambda>offset len flush address b m. (0, b, m)),
     FileBackend_GetSize = (\<lambda>b. (of_nat (length b), b)),
     FileBackend_SetSize = (\<lambda>size b. take (unat size) b),
     FileBackend_Close = (\<lambda>b. b),
     FileBackend_Flush = (\<lambda>b. b),
     HandleTable_Create = (\<lambda>k. (Inr (of_nat k), Suc k)),
     INVALID_HANDLE = 0\<rparr>"

definition ex_File ::
  "u32 \<Rightarrow> u32 \<Rightarrow> u32 \<Rightarrow> u32 \<Rightarrow> (8 word list, (u32 \<times> 8 word list) list, nat) File" where
  "ex_File w0 w1 w2 w3 =
    \<lparr>cmd_buff = (\<lambda>i. 0)(0 := w0, 1 := w1, 2 := w2, 3 := w3), memory = [],
     backend = [1, 2, 3, 4], priority = 7, handle_table = 0\<rparr>"

definition ex_DirectoryExt :: "(nat, (u32 \<times> nat) list) DirectoryExt" where
  "ex_DirectoryExt =
    \<lparr>DirectoryBackend_Read = (\<lambda>count address b m.
        (of_nat (min (unat count) b), b - min (unat count) b,
         (address, min (unat count) b) # m)),
     DirectoryBackend_Close = (\<lambda>b. 0)\<rparr>"

definition ex_Directory :: "u32 \<Rightarrow> (nat, (u32 \<times> nat) list) Directory" where
  "ex_Directory w0 = \<lparr>cmd_buff = (\<lambda>i. 0)(0 := w0), memory = [], backend = 5\<rparr>"

text \<open>
  Factories and archive backends over a host state that counts the backends made so
  far: \<open>Open\<close> fails on the path \<open>''/missing''\<close> and otherwise makes a new backend; a
  rename succeeds when the two paths differ.
\<close>

definition ex_ArchiveExt :: "(nat, nat, string, nat) ArchiveExt" where
  "ex_ArchiveExt =
    \<lparr>ArchiveFactory_Initialize = (\<lambda>f w. (True, w)),
     ArchiveFactory_Open = (\<lambda>f p w.
        if p = ''/missing''
        then (Inl (ResultCode FS_NotFound FS ErrorSummary.NotFound Status), w)
        else (Inr w, Suc w)),
     ArchiveFactory_Format = (\<lambda>f p w. (RESULT_SUCCESS, w)),
     ArchiveBackend_RenameFile = (\<lambda>a p q w. (p \<noteq> q, w)),
     ArchiveBackend_RenameDirectory = (\<lambda>a p q w. (p \<noteq> q, w)),
     ArchiveBackend_delete = (\<lambda>a w. w)\<rparr>"

text \<open>Two registered types and two open archives.\<close>

definition ex_Archives :: "(nat, nat, nat) Archives" where
  "ex_Archives =
    \<lparr>id_code_map = [SaveData \<mapsto> 0, ExtSaveData \<mapsto> 1],
     handle_map = [1 \<mapsto> 0, 2 \<mapsto> 1], next_handle = 3, host = 2\<rparr>"

text \<open>
  The statics as the program starts (line 232-238: two empty containers and a
  zero-initialised counter), before \<open>ArchiveInit\<close> has run.
\<close>

definition static_Archives :: "(nat, nat, nat) Archives" where
  "static_Archives =
    \<lparr>id_code_map = Map.empty, handle_map = Map.empty, next_handle = 0, host = 0\<rparr>"

definition ex_Factories :: "nat Factories" where
  "ex_Factories =
    \<lparr>sdmc_factory = 0, savedata_factory = 1, extsavedata_factory = 2,
     sharedextsavedata_factory = 3, savedatacheck_factory = 4,
     systemsavedata_factory = 5\<rparr>"



text \<open>
  A type registered in the statics as the program starts, with \<open>ArchiveInit\<close> not yet
  run, and the state one \<open>OpenArchive\<close> later.
\<close>

definition early_Archives :: "(nat, nat, nat) Archives" where
  "early_Archives =
    \<lparr>id_code_map = [SaveData \<mapsto> 1], handle_map = Map.empty, next_handle = 0, host = 0\<rparr>"


text \<open>
  The counter at its last value \<open>2 ^ 64 - 1\<close> with no archive open, the state one
  \<open>OpenArchive\<close> later, where the counter has wrapped around, and the state after one
  more.
\<close>

definition late_Archives :: "(nat, nat, nat) Archives" where
  "late_Archives =
    \<lparr>id_code_map = [SaveData \<mapsto> 1], handle_map = Map.empty,
     next_handle = 0xFFFFFFFFFFFFFFFF, host = 0\<rparr>"

definition wrapped_Archives :: "(nat, nat, nat) Archives" where
  "wrapped_Archives =
    \<lparr>id_code_map = [SaveData \<mapsto> 1], handle_map = [0xFFFFFFFFFFFFFFFF \<mapsto> 0],
     next_handle = 0, host = 1\<rparr>"


section \<open>Properties\<close>

lemmas FileCommand_defs =
  FileCommand_Dummy1_def FileCommand_Control_def FileCommand_OpenSubFile_def
  FileCommand_Read_def FileCommand_Write_def FileCommand_GetSize_def
  FileCommand_SetSize_def FileCommand_GetAttributes_def FileCommand_SetAttributes_def
  FileCommand_Close_def FileCommand_Flush_def FileCommand_SetPriority_def
  FileCommand_GetPriority_def FileCommand_OpenLinkFile_def

lemmas DirectoryCommand_defs =
  DirectoryCommand_Dummy1_def DirectoryCommand_Control_def DirectoryCommand_Read_def
  DirectoryCommand_Close_def

subsection \<open>The two dispatchers\<close>

lemma File_cases_in_table: "set File_cases \<subseteq> set FileCommand_table"
  by (simp add: File_cases_def FileCommand_table_def)

lemma Directory_cases_in_table: "set Directory_cases \<subseteq> set DirectoryCommand_table"
  by (simp add: Directory_cases_def DirectoryCommand_table_def)

lemma File_SyncRequest_default:
  assumes "cmd_buff f 0 \<notin> set File_cases"
  shows "File_SyncRequest raw ext f =
           (Inl (UnimplementedFunction FS),
            f\<lparr>cmd_buff := (cmd_buff f)(1 := raw (UnimplementedFunction FS))\<rparr>)"
  using assms by (simp add: File_SyncRequest_def File_cases_def Let_def)

lemma Directory_SyncRequest_default:
  assumes "cmd_buff d 0 \<notin> set Directory_cases"
  shows "Directory_SyncRequest raw ext d =
           (Inr False, d\<lparr>cmd_buff := (cmd_buff d)(1 := raw (UnimplementedFunction FS))\<rparr>)"
  using assms by (simp add: Directory_SyncRequest_def Directory_cases_def Let_def)

lemma attributes_not_a_case:
  "FileCommand_GetAttributes \<notin> set File_cases" "FileCommand_SetAttributes \<notin> set File_cases"
  by (simp_all add: File_cases_def FileCommand_defs)

lemma File_SyncRequest_Read:
  assumes "cmd_buff f 0 = FileCommand_Read"
    and "FileBackend_Read ext (make_u64 (cmd_buff f 1) (cmd_buff f 2)) (cmd_buff f 3)
           (cmd_buff f 5) (backend f) (memory f) = (n, b, m)"
  shows "File_SyncRequest raw ext f =
           (Inr False,
            f\<lparr>cmd_buff := (cmd_buff f)(2 := ucast n, 1 := raw RESULT_SUCCESS),
              memory := m, backend := b\<rparr>)"
  using assms by (simp add: File_SyncRequest_def no_error_def Let_def)

lemma ucast_count_exact:
  fixes n :: u64 and len :: u32
  assumes "n \<le> ucast len"
  shows "(ucast (ucast n :: u32) :: u64) = n"
proof -
  have "(ucast len :: u64) AND mask 32 = ucast len"
    by (rule bit_word_eqI) (auto simp: bit_ucast_iff bit_and_iff bit_mask_iff dest: bit_imp_le_length)
  moreover have "(ucast len :: u64) AND mask 32 < 2 ^ 32"
    by (rule and_mask_less') simp
  ultimately have "(ucast len :: u64) < 2 ^ 32" by simp
  with assms have "n < 2 ^ 32" by simp
  then have "n AND mask 32 = n" by (rule less_mask_eq)
  moreover have "(ucast (ucast n :: u32) :: u64) = n AND mask 32"
    by (rule bit_word_eqI) (auto simp: bit_ucast_iff bit_and_iff bit_mask_iff)
  ultimately show ?thesis by simp
qed

lemma ex_File_Read:
  "FileBackend_Read ex_FileExt (make_u64 1 0) 10 0 [1, 2, 3, 4] [] = (3, [1, 2, 3, 4], [(0, [2, 3, 4])])"
  by (simp add: ex_FileExt_def make_u64_def)

text \<open>
  C4.  A \<open>Read\<close> request always ends as a success, whatever count the backend returns:
  the function returns \<open>MakeResult<bool>(false)\<close>, the status word \<open>cmd_buff[1]\<close> is the
  encoding of \<open>RESULT_SUCCESS\<close>, and the response word \<open>cmd_buff[2]\<close> is the backend's
  count cast to 32 bits.  A count that does not exceed the requested length (a short
  read in particular) is stored exactly.
\<close>

theorem File_Read_short_is_success:
  assumes "cmd_buff f 0 = FileCommand_Read"
    and "FileBackend_Read ext (make_u64 (cmd_buff f 1) (cmd_buff f 2)) (cmd_buff f 3)
           (cmd_buff f 5) (backend f) (memory f) = (n, b, m)"
  shows "fst (File_SyncRequest raw ext f) = Inr False
    \<and> cmd_buff (snd (File_SyncRequest raw ext f)) 1 = raw RESULT_SUCCESS
    \<and> cmd_buff (snd (File_SyncRequest raw ext f)) 2 = ucast n
    \<and> (n \<le> ucast (cmd_buff f 3) \<longrightarrow>
         ucast (cmd_buff (snd (File_SyncRequest raw ext f)) 2) = n)"
  using File_SyncRequest_Read [OF assms, of raw] by (simp add: ucast_count_exact)

theorem File_Read_short_is_success_witness:
  "cmd_buff (ex_File FileCommand_Read 1 0 10) 0 = FileCommand_Read
   \<and> fst (File_SyncRequest raw_packed ex_FileExt (ex_File FileCommand_Read 1 0 10)) = Inr False
   \<and> cmd_buff (snd (File_SyncRequest raw_packed ex_FileExt (ex_File FileCommand_Read 1 0 10))) 1
       = raw_packed RESULT_SUCCESS
   \<and> cmd_buff (snd (File_SyncRequest raw_packed ex_FileExt (ex_File FileCommand_Read 1 0 10))) 2 = 3
   \<and> (ucast (cmd_buff (snd (File_SyncRequest raw_packed ex_FileExt
                 (ex_File FileCommand_Read 1 0 10))) 2) :: u64) = 3
   \<and> (3 :: u32) < cmd_buff (ex_File FileCommand_Read 1 0 10) 3"
proof -
  let ?f = "ex_File FileCommand_Read 1 0 10"
  have c: "cmd_buff ?f 0 = FileCommand_Read" by (simp add: ex_File_def)
  have r: "FileBackend_Read ex_FileExt (make_u64 (cmd_buff ?f 1) (cmd_buff ?f 2)) (cmd_buff ?f 3)
             (cmd_buff ?f 5) (backend ?f) (memory ?f) = (3, [1, 2, 3, 4], [(0, [2, 3, 4])])"
    using ex_File_Read by (simp add: ex_File_def)
  have l: "(3 :: u32) < cmd_buff ?f 3" by (simp add: ex_File_def)
  have h: "(3 :: u64) \<le> ucast (cmd_buff ?f 3)" by (simp add: ex_File_def)
  show ?thesis
    using File_Read_short_is_success [OF c r, of raw_packed] c l h by simp
qed

text \<open>
  C3, as amended.  The switch has no case for \<open>GetAttributes\<close> or \<open>SetAttributes\<close>: either
  opcode takes the \<open>default\<close> branch, which writes the encoding of the Unimplemented
  error into the status word and returns that error.  The backend, the guest memory,
  the handle table, the priority and every other word of the command buffer are left
  as they were.
\<close>

theorem attributes_unimplemented:
  assumes "cmd_buff f 0 = FileCommand_GetAttributes \<or> cmd_buff f 0 = FileCommand_SetAttributes"
  shows "File_SyncRequest raw ext f =
           (Inl (UnimplementedFunction FS),
            f\<lparr>cmd_buff := (cmd_buff f)(1 := raw (UnimplementedFunction FS))\<rparr>)"
proof -
  from assms have "cmd_buff f 0 \<notin> set File_cases"
    using attributes_not_a_case by auto
  then show ?thesis by (rule File_SyncRequest_default)
qed

theorem attributes_unimplemented_witness:
  "File_SyncRequest raw_packed ex_FileExt (ex_File FileCommand_SetAttributes 0 0 0) =
     (Inl (UnimplementedFunction FS),
      (ex_File FileCommand_SetAttributes 0 0 0)
        \<lparr>cmd_buff := (cmd_buff (ex_File FileCommand_SetAttributes 0 0 0))
                        (1 := raw_packed (UnimplementedFunction FS))\<rparr>)"
  using attributes_unimplemented [of "ex_File FileCommand_SetAttributes 0 0 0" raw_packed ex_FileExt]
  by (simp add: ex_File_def)

text \<open>
  C3 as stated fails: on \<open>GetAttributes\<close> the request returns the Unimplemented error,
  and the status word it writes is not the success word.
\<close>

theorem attributes_success_counterexample:
  "fst (File_SyncRequest raw_packed ex_FileExt (ex_File FileCommand_GetAttributes 0 0 0))
     = Inl (ResultCode NotImplemented FS NotSupported Permanent)
   \<and> cmd_buff (snd (File_SyncRequest raw_packed ex_FileExt (ex_File FileCommand_GetAttributes 0 0 0))) 1
       \<noteq> raw_packed RESULT_SUCCESS"
  by (simp add: File_SyncRequest_def ex_File_def FileCommand_defs UnimplementedFunction_def)

text \<open>
  C8.  An opcode outside the \<open>FileCommand\<close> enumeration, dispatched to a file, or outside
  the \<open>DirectoryCommand\<close> enumeration, dispatched to a directory, puts the encoding of the
  Unimplemented error into the status word and changes nothing else: the state after
  the request is the state before it with \<open>cmd_buff[1]\<close> overwritten, so the priority of
  the file is what it was.
\<close>

theorem unknown_opcode_keeps_state:
  "(cmd_buff f 0 \<notin> set FileCommand_table \<longrightarrow>
      cmd_buff (snd (File_SyncRequest raw ext f)) 1 = raw (UnimplementedFunction FS)
      \<and> priority (snd (File_SyncRequest raw ext f)) = priority f
      \<and> snd (File_SyncRequest raw ext f)
          = f\<lparr>cmd_buff := (cmd_buff f)(1 := raw (UnimplementedFunction FS))\<rparr>)
   \<and> (cmd_buff d 0 \<notin> set DirectoryCommand_table \<longrightarrow>
      cmd_buff (snd (Directory_SyncRequest raw dext d)) 1 = raw (UnimplementedFunction FS)
      \<and> snd (Directory_SyncRequest raw dext d)
          = d\<lparr>cmd_buff := (cmd_buff d)(1 := raw (UnimplementedFunction FS))\<rparr>)"
proof (intro conjI impI)
  assume "cmd_buff f 0 \<notin> set FileCommand_table"
  then have "cmd_buff f 0 \<notin> set File_cases" using File_cases_in_table by blast
  then have e: "File_SyncRequest raw ext f =
           (Inl (UnimplementedFunction FS),
            f\<lparr>cmd_buff := (cmd_buff f)(1 := raw (UnimplementedFunction FS))\<rparr>)"
    by (rule File_SyncRequest_default)
  show "cmd_buff (snd (File_SyncRequest raw ext f)) 1 = raw (UnimplementedFunction FS)"
    and "priority (snd (File_SyncRequest raw ext f)) = priority f"
    and "snd (File_SyncRequest raw ext f)
          = f\<lparr>cmd_buff := (cmd_buff f)(1 := raw (UnimplementedFunction FS))\<rparr>"
    by (simp_all add: e)
next
  assume "cmd_buff d 0 \<notin> set DirectoryCommand_table"
  then have "cmd_buff d 0 \<notin> set Directory_cases" using Directory_cases_in_table by blast
  then have e: "Directory_SyncRequest raw dext d =
           (Inr False, d\<lparr>cmd_buff := (cmd_buff d)(1 := raw (UnimplementedFunction FS))\<rparr>)"
    by (rule Directory_SyncRequest_default)
  show "cmd_buff (snd (Directory_SyncRequest raw dext d)) 1 = raw (UnimplementedFunction FS)"
    and "snd (Directory_SyncRequest raw dext d)
          = d\<lparr>cmd_buff := (cmd_buff d)(1 := raw (UnimplementedFunction FS))\<rparr>"
    by (simp_all add: e)
qed

theorem unknown_opcode_keeps_state_witness:
  "cmd_buff (ex_File 0x080D0000 0 0 0) 0 \<notin> set FileCommand_table
   \<and> cmd_buff (ex_Directory 0x08030000) 0 \<notin> set DirectoryCommand_table
   \<and> cmd_buff (snd (File_SyncRequest raw_packed ex_FileExt (ex_File 0x080D0000 0 0 0))) 1
       = raw_packed (UnimplementedFunction FS)
   \<and> priority (snd (File_SyncRequest raw_packed ex_FileExt (ex_File 0x080D0000 0 0 0))) = 7
   \<and> cmd_buff (snd (Directory_SyncRequest raw_packed ex_DirectoryExt (ex_Directory 0x08030000))) 1
       = raw_packed (UnimplementedFunction FS)
   \<and> backend (snd (Directory_SyncRequest raw_packed ex_DirectoryExt (ex_Directory 0x08030000))) = 5"
proof -
  have a: "cmd_buff (ex_File 0x080D0000 0 0 0) 0 \<notin> set FileCommand_table"
    by (simp add: ex_File_def FileCommand_table_def FileCommand_defs)
  have b: "cmd_buff (ex_Directory 0x08030000) 0 \<notin> set DirectoryCommand_table"
    by (simp add: ex_Directory_def DirectoryCommand_table_def DirectoryCommand_defs)
  show ?thesis
    using unknown_opcode_keeps_state [of "ex_File 0x080D0000 0 0 0" raw_packed ex_FileExt
        "ex_Directory 0x08030000" ex_DirectoryExt] a b
    by (simp add: ex_File_def ex_Directory_def)
qed

text \<open>
  C10.  On an opcode that matches no case label, \<open>File::SyncRequest\<close> writes the
  Unimplemented error into the status word and returns it as its result, while
  \<open>Directory::SyncRequest\<close> writes the error into the status word and returns
  \<open>MakeResult<bool>(false)\<close>, a success value.
\<close>

theorem unknown_opcode_two_channels:
  "(cmd_buff f 0 \<notin> set File_cases \<longrightarrow>
      fst (File_SyncRequest raw ext f) = Inl (UnimplementedFunction FS)
      \<and> cmd_buff (snd (File_SyncRequest raw ext f)) 1 = raw (UnimplementedFunction FS))
   \<and> (cmd_buff d 0 \<notin> set Directory_cases \<longrightarrow>
      fst (Directory_SyncRequest raw dext d) = Inr False
      \<and> cmd_buff (snd (Directory_SyncRequest raw dext d)) 1 = raw (UnimplementedFunction FS))"
  by (simp add: File_SyncRequest_default Directory_SyncRequest_default)

theorem unknown_opcode_two_channels_witness:
  "cmd_buff (ex_File 0 0 0 0) 0 \<notin> set File_cases
   \<and> cmd_buff (ex_Directory 0) 0 \<notin> set Directory_cases
   \<and> fst (File_SyncRequest raw_packed ex_FileExt (ex_File 0 0 0 0))
       = Inl (UnimplementedFunction FS)
   \<and> cmd_buff (snd (File_SyncRequest raw_packed ex_FileExt (ex_File 0 0 0 0))) 1
       = raw_packed (UnimplementedFunction FS)
   \<and> fst (Directory_SyncRequest raw_packed ex_DirectoryExt (ex_Directory 0)) = Inr False
   \<and> cmd_buff (snd (Directory_SyncRequest raw_packed ex_DirectoryExt (ex_Directory 0))) 1
       = raw_packed (UnimplementedFunction FS)"
proof -
  have a: "cmd_buff (ex_File 0 0 0 0) 0 \<notin> set File_cases"
    by (simp add: ex_File_def File_cases_def FileCommand_defs)
  have b: "cmd_buff (ex_Directory 0) 0 \<notin> set Directory_cases"
    by (simp add: ex_Directory_def Directory_cases_def DirectoryCommand_defs)
  show ?thesis
    using unknown_opcode_two_channels [of "ex_File 0 0 0 0" raw_packed ex_FileExt
        "ex_Directory 0" ex_DirectoryExt] a b
    by simp
qed

subsection \<open>The registry and the table\<close>


lemma skip_present_here: "m h = None \<Longrightarrow> skip_present m h = Some h"
  by (subst skip_present.simps) simp



lemma counter_ahead_free: "counter_ahead s \<Longrightarrow> handle_map s (next_handle s) = None"
  by (auto simp: counter_ahead_def dom_def)

lemma OpenArchive_Inr:
  assumes "OpenArchive ext id_code path s = Some (Inr h, s')"
  obtains factory res w where
    "id_code_map s id_code = Some factory"
    "ArchiveFactory_Open ext factory path (host s) = (Inr res, w)"
    "skip_present (handle_map s) (next_handle s) = Some h"
    "s' = s\<lparr>handle_map := (handle_map s)(h \<mapsto> res), next_handle := h + 1, host := w\<rparr>"
  using assms
  by (auto simp: OpenArchive_def split: option.splits prod.splits sum.splits)

lemma OpenArchive_Inl:
  assumes "OpenArchive ext id_code path s = Some (Inl e, s')"
  shows "handle_map s' = handle_map s" and "next_handle s' = next_handle s"
    and "id_code_map s' = id_code_map s"
  using assms
  by (auto simp: OpenArchive_def split: option.splits prod.splits sum.splits)


lemma OpenArchive_counter_ahead:
  assumes "OpenArchive ext id_code path s = Some (Inr h, s')" and "counter_ahead s"
  shows "h = next_handle s" and "h \<noteq> 0" and "next_handle s' = next_handle s + 1"
proof -
  from assms(2) have "skip_present (handle_map s) (next_handle s) = Some (next_handle s)"
    by (simp add: counter_ahead_free skip_present_here)
  with assms(1) show "h = next_handle s" and "next_handle s' = next_handle s + 1"
    by (auto elim!: OpenArchive_Inr)
  with assms(2) show "h \<noteq> 0" by (simp add: counter_ahead_def)
qed





text \<open>
  C1.  For \<open>RenameFileBetweenArchives\<close> and \<open>RenameDirectoryBetweenArchives\<close>: when either
  handle is absent from the table the result is \<open>ERR_INVALID_HANDLE\<close>; when both handles
  resolve to the same backend the result is \<open>RESULT_SUCCESS\<close> exactly when the backend's
  rename returns true; when they resolve to two different backends the result is the
  Unimplemented error, whatever the paths.  In the first and the last case nothing is
  changed.
\<close>

theorem rename_between_archives:
  "(GetArchive s src = None \<or> GetArchive s dst = None \<longrightarrow>
      RenameFileBetweenArchives ext src sp dst dp s = (ERR_INVALID_HANDLE, s)
      \<and> RenameDirectoryBetweenArchives ext src sp dst dp s = (ERR_INVALID_HANDLE, s))
   \<and> (GetArchive s src = Some a \<and> GetArchive s dst = Some a \<longrightarrow>
      (fst (RenameFileBetweenArchives ext src sp dst dp s) = RESULT_SUCCESS
         \<longleftrightarrow> fst (ArchiveBackend_RenameFile ext a sp dp (host s)))
      \<and> (fst (RenameDirectoryBetweenArchives ext src sp dst dp s) = RESULT_SUCCESS
         \<longleftrightarrow> fst (ArchiveBackend_RenameDirectory ext a sp dp (host s))))
   \<and> (GetArchive s src = Some a \<and> GetArchive s dst = Some b \<and> a \<noteq> b \<longrightarrow>
      RenameFileBetweenArchives ext src sp dst dp s = (UnimplementedFunction FS, s)
      \<and> RenameDirectoryBetweenArchives ext src sp dst dp s = (UnimplementedFunction FS, s))"
  by (auto simp: RenameFileBetweenArchives_def RenameDirectoryBetweenArchives_def
      split: option.splits prod.splits)

theorem rename_between_archives_witness:
  "GetArchive ex_Archives 9 = None
   \<and> RenameFileBetweenArchives ex_ArchiveExt 9 ''/a'' 1 ''/b'' ex_Archives
       = (ERR_INVALID_HANDLE, ex_Archives)
   \<and> RenameDirectoryBetweenArchives ex_ArchiveExt 9 ''/a'' 1 ''/b'' ex_Archives
       = (ERR_INVALID_HANDLE, ex_Archives)
   \<and> GetArchive ex_Archives 1 = Some 0
   \<and> fst (ArchiveBackend_RenameFile ex_ArchiveExt 0 ''/a'' ''/b'' (host ex_Archives))
   \<and> fst (RenameFileBetweenArchives ex_ArchiveExt 1 ''/a'' 1 ''/b'' ex_Archives) = RESULT_SUCCESS
   \<and> \<not> fst (ArchiveBackend_RenameDirectory ex_ArchiveExt 0 ''/a'' ''/a'' (host ex_Archives))
   \<and> fst (RenameDirectoryBetweenArchives ex_ArchiveExt 1 ''/a'' 1 ''/a'' ex_Archives)
       \<noteq> RESULT_SUCCESS
   \<and> GetArchive ex_Archives 2 = Some 1
   \<and> RenameFileBetweenArchives ex_ArchiveExt 1 ''/a'' 2 ''/b'' ex_Archives
       = (UnimplementedFunction FS, ex_Archives)
   \<and> RenameDirectoryBetweenArchives ex_ArchiveExt 1 ''/a'' 2 ''/b'' ex_Archives
       = (UnimplementedFunction FS, ex_Archives)"
proof -
  have g: "GetArchive ex_Archives 9 = None" "GetArchive ex_Archives 1 = Some 0"
    "GetArchive ex_Archives 2 = Some 1"
    by (simp_all add: GetArchive_def ex_Archives_def)
  have r: "fst (ArchiveBackend_RenameFile ex_ArchiveExt 0 ''/a'' ''/b'' (host ex_Archives))"
    "\<not> fst (ArchiveBackend_RenameDirectory ex_ArchiveExt 0 ''/a'' ''/a'' (host ex_Archives))"
    by (simp_all add: ex_ArchiveExt_def)
  show ?thesis
    using rename_between_archives [of ex_Archives 9 1 ex_ArchiveExt "''/a''" "''/b''" 0 1]
      rename_between_archives [of ex_Archives 1 1 ex_ArchiveExt "''/a''" "''/b''" 0 1]
      rename_between_archives [of ex_Archives 1 1 ex_ArchiveExt "''/a''" "''/a''" 0 1]
      rename_between_archives [of ex_Archives 1 2 ex_ArchiveExt "''/a''" "''/b''" 0 1]
      g r
    by simp
qed

text \<open>
  For a registered \<open>id_code\<close>, \<open>FormatArchive\<close> returns exactly what the factory's
  \<open>Format\<close> returns (line 406) and the table and the counter stay as they were.
\<close>

lemma FormatArchive_registered:
  assumes "id_code_map s id_code = Some factory"
  shows "FormatArchive ext id_code path s =
           (fst (ArchiveFactory_Format ext factory path (host s)),
            s\<lparr>host := snd (ArchiveFactory_Format ext factory path (host s))\<rparr>)"
  using assms by (simp add: FormatArchive_def split: prod.splits)

text \<open>
  C2.  \<open>FormatArchive\<close> on an \<open>id_code\<close> that is not registered is to fail with a NotFound
  error.  The code does not: line 403 returns \<open>UnimplementedFunction(ErrorModule::FS)\<close>,
  a value its own comment marks as a stand-in for the right error.  On the unregistered
  \<open>RomFS\<close> the result has the description \<open>NotImplemented\<close> and the summary
  \<open>NotSupported\<close>, while \<open>OpenArchive\<close> (lines 249-252), failing the same lookup in the
  same state, returns the NotFound error.
\<close>

theorem FormatArchive_unregistered_not_NotFound:
  "id_code_map ex_Archives RomFS = None
   \<and> FormatArchive ex_ArchiveExt RomFS ''/a'' ex_Archives
       = (ResultCode NotImplemented FS NotSupported Permanent, ex_Archives)
   \<and> fst (FormatArchive ex_ArchiveExt RomFS ''/a'' ex_Archives)
       \<noteq> ResultCode ErrorDescription.NotFound FS ErrorSummary.NotFound Permanent
   \<and> OpenArchive ex_ArchiveExt RomFS ''/a'' ex_Archives
       = Some (Inl (ResultCode ErrorDescription.NotFound FS ErrorSummary.NotFound Permanent),
               ex_Archives)"
  by (simp add: FormatArchive_def OpenArchive_def ex_Archives_def UnimplementedFunction_def)

text \<open>
  C5.  \<open>OpenArchive\<close> on an \<open>id_code\<close> that is not registered returns the error
  (NotFound, FS, NotFound, Permanent); on a registered one whose factory's \<open>Open\<close> fails
  with the error \<open>e\<close> it returns \<open>e\<close> itself.  In both cases the function returns (the
  loop is not reached) and the table and the counter stay as they were.
\<close>

theorem OpenArchive_errors:
  "(id_code_map s id_code = None \<longrightarrow>
      OpenArchive ext id_code path s =
        Some (Inl (ResultCode ErrorDescription.NotFound FS ErrorSummary.NotFound Permanent), s))
   \<and> (id_code_map s id_code = Some factory
        \<and> ArchiveFactory_Open ext factory path (host s) = (Inl e, w) \<longrightarrow>
      OpenArchive ext id_code path s = Some (Inl e, s\<lparr>host := w\<rparr>))"
  by (simp add: OpenArchive_def)

theorem OpenArchive_errors_witness:
  "id_code_map ex_Archives RomFS = None
   \<and> OpenArchive ex_ArchiveExt RomFS ''/a'' ex_Archives =
       Some (Inl (ResultCode ErrorDescription.NotFound FS ErrorSummary.NotFound Permanent),
             ex_Archives)
   \<and> id_code_map ex_Archives SaveData = Some 0
   \<and> ArchiveFactory_Open ex_ArchiveExt 0 ''/missing'' (host ex_Archives)
       = (Inl (ResultCode FS_NotFound FS ErrorSummary.NotFound Status), 2)
   \<and> OpenArchive ex_ArchiveExt SaveData ''/missing'' ex_Archives =
       Some (Inl (ResultCode FS_NotFound FS ErrorSummary.NotFound Status), ex_Archives)"
proof -
  have a: "id_code_map ex_Archives RomFS = None" "id_code_map ex_Archives SaveData = Some 0"
    by (simp_all add: ex_Archives_def)
  have b: "ArchiveFactory_Open ex_ArchiveExt 0 ''/missing'' (host ex_Archives)
       = (Inl (ResultCode FS_NotFound FS ErrorSummary.NotFound Status), 2)"
    by (simp add: ex_ArchiveExt_def ex_Archives_def)
  show ?thesis
    using OpenArchive_errors [of ex_Archives RomFS ex_ArchiveExt "''/a''" 0]
      OpenArchive_errors [of ex_Archives SaveData ex_ArchiveExt "''/missing''" 0
        "ResultCode FS_NotFound FS ErrorSummary.NotFound Status" 2] a b
    by (simp add: ex_Archives_def)
qed

text \<open>
  C6.  \<open>RegisterArchiveType\<close> under an \<open>id_code\<close> that is already registered fails the
  assertion, so it neither overwrites the factory nor returns any result code; under a
  fresh \<open>id_code\<close> it inserts the factory and returns \<open>RESULT_SUCCESS\<close>.
\<close>

theorem RegisterArchiveType_duplicate_asserts:
  "(id_code_map s id_code \<noteq> None \<longrightarrow>
      RegisterArchiveType factory id_code s = AssertFailed)
   \<and> (id_code_map s id_code = None \<longrightarrow>
      RegisterArchiveType factory id_code s =
        Returns (RESULT_SUCCESS, s\<lparr>id_code_map := (id_code_map s)(id_code \<mapsto> factory)\<rparr>))"
  by (simp add: RegisterArchiveType_def)

theorem RegisterArchiveType_duplicate_asserts_witness:
  "id_code_map ex_Archives SaveData \<noteq> None
   \<and> RegisterArchiveType 5 SaveData ex_Archives = AssertFailed
   \<and> id_code_map ex_Archives SDMC = None
   \<and> RegisterArchiveType 5 SDMC ex_Archives =
       Returns (RESULT_SUCCESS,
                ex_Archives\<lparr>id_code_map := (id_code_map ex_Archives)(SDMC \<mapsto> 5)\<rparr>)"
proof -
  have a: "id_code_map ex_Archives SaveData \<noteq> None" "id_code_map ex_Archives SDMC = None"
    by (simp_all add: ex_Archives_def)
  show ?thesis
    using RegisterArchiveType_duplicate_asserts [of ex_Archives SaveData 5]
      RegisterArchiveType_duplicate_asserts [of ex_Archives SDMC 5] a
    by simp
qed

text \<open>
  C7.  \<open>CloseArchive\<close> of a handle that is not in the table returns
  \<open>ERR_INVALID_HANDLE\<close> and changes nothing.  For a handle in the table it returns
  \<open>RESULT_SUCCESS\<close> and erases the entry: \<open>GetArchive\<close> of the handle is then \<open>nullptr\<close>,
  and closing it a second time returns \<open>ERR_INVALID_HANDLE\<close>.
\<close>

theorem CloseArchive_handles:
  "(handle_map s handle = None \<longrightarrow> CloseArchive ext handle s = (ERR_INVALID_HANDLE, s))
   \<and> (handle_map s handle \<noteq> None \<longrightarrow>
      fst (CloseArchive ext handle s) = RESULT_SUCCESS
      \<and> handle_map (snd (CloseArchive ext handle s)) = (handle_map s)(handle := None)
      \<and> GetArchive (snd (CloseArchive ext handle s)) handle = None
      \<and> fst (CloseArchive ext handle (snd (CloseArchive ext handle s))) = ERR_INVALID_HANDLE)"
  by (auto simp: CloseArchive_def GetArchive_def)

theorem CloseArchive_handles_witness:
  "handle_map ex_Archives 9 = None
   \<and> CloseArchive ex_ArchiveExt 9 ex_Archives = (ERR_INVALID_HANDLE, ex_Archives)
   \<and> handle_map ex_Archives 1 \<noteq> None
   \<and> fst (CloseArchive ex_ArchiveExt 1 ex_Archives) = RESULT_SUCCESS
   \<and> GetArchive (snd (CloseArchive ex_ArchiveExt 1 ex_Archives)) 1 = None
   \<and> fst (CloseArchive ex_ArchiveExt 1 (snd (CloseArchive ex_ArchiveExt 1 ex_Archives)))
       = ERR_INVALID_HANDLE"
proof -
  have a: "handle_map ex_Archives 9 = None" "handle_map ex_Archives 1 \<noteq> None"
    by (simp_all add: ex_Archives_def)
  show ?thesis
    using CloseArchive_handles [of ex_Archives 9 ex_ArchiveExt]
      CloseArchive_handles [of ex_Archives 1 ex_ArchiveExt] a
    by simp
qed




subsection \<open>The counter stays ahead of the table\<close>

text \<open>
  \<open>ArchiveInit\<close> sets the counter to 1 and leaves the table alone, so on an empty table
  it makes the counter ahead of the table.  \<open>CloseArchive\<close> keeps it so, and so does
  \<open>OpenArchive\<close> unless the counter stands at its last value, from where it wraps
  around to 0.
\<close>

lemma early_registered:
  "RegisterArchiveType 1 SaveData static_Archives = Returns (RESULT_SUCCESS, early_Archives)"
  by (simp add: RegisterArchiveType_def static_Archives_def early_Archives_def)

lemma RegisterArchiveType_statics:
  assumes "RegisterArchiveType factory id_code s = Returns (r, s')"
  shows "handle_map s' = handle_map s" and "next_handle s' = next_handle s"
  using assms by (auto simp: RegisterArchiveType_def Let_def split: if_splits)

lemma and_then_Returns:
  "and_then r k = Returns v \<longleftrightarrow> (\<exists>u. r = Returns u \<and> k u = Returns v)"
  by (cases r) (simp_all add: and_then_def)

lemma register_statics:
  assumes "register factory id_code s = Returns s'"
  shows "handle_map s' = handle_map s \<and> next_handle s' = next_handle s"
  using assms
  by (auto simp: register_def and_then_Returns dest: RegisterArchiveType_statics)

lemma register_if_initialized_statics:
  assumes "register_if_initialized ext factory id_code s = Returns s'"
  shows "handle_map s' = handle_map s \<and> next_handle s' = next_handle s"
  using assms
  by (auto simp: register_if_initialized_def split: prod.splits if_splits
      dest!: register_statics)

lemma ArchiveInit_counter:
  assumes "ArchiveInit ext fs s = Returns s'"
  shows "next_handle s' = 1 \<and> handle_map s' = handle_map s"
  using assms unfolding ArchiveInit_def and_then_Returns
  by (auto dest!: register_statics register_if_initialized_statics)

lemma ArchiveInit_counter_ahead:
  assumes "ArchiveInit ext fs s = Returns s'" and "handle_map s = Map.empty"
  shows "counter_ahead s'"
  using ArchiveInit_counter [OF assms(1)] assms(2) by (simp add: counter_ahead_def)

lemma ArchiveInit_static:
  "ArchiveInit ex_ArchiveExt ex_Factories static_Archives =
     Returns \<lparr>id_code_map = [SDMC \<mapsto> 0, SaveData \<mapsto> 1, ExtSaveData \<mapsto> 2,
                SharedExtSaveData \<mapsto> 3, SaveDataCheck \<mapsto> 4, SystemSaveData \<mapsto> 5],
              handle_map = Map.empty, next_handle = 1, host = 0\<rparr>"
  by (simp add: ArchiveInit_def and_then_def register_if_initialized_def register_def
      RegisterArchiveType_def ex_ArchiveExt_def ex_Factories_def static_Archives_def)

lemma word_less_successor:
  fixes h :: ArchiveHandle
  assumes "h \<noteq> - 1"
  shows "h + 1 \<noteq> 0" and "h < h + 1"
proof -
  show "h + 1 \<noteq> 0"
    using assms max_word_wrap [of h] by blast
  have "\<not> h + 1 \<le> h"
    using assms by (simp add: inc_less_eq_self_iff_eq)
  then show "h < h + 1" by simp
qed

lemma OpenArchive_keeps_counter_ahead:
  assumes "OpenArchive ext id_code path s = Some (r, s')" and "counter_ahead s"
    and "next_handle s \<noteq> - 1"
  shows "counter_ahead s'"
proof (cases r)
  case (Inl e)
  with assms(1) have "handle_map s' = handle_map s" and "next_handle s' = next_handle s"
    by (simp_all add: OpenArchive_Inl)
  with assms(2) show ?thesis by (simp add: counter_ahead_def)
next
  case (Inr h)
  with assms(1) have o: "OpenArchive ext id_code path s = Some (Inr h, s')" by simp
  have h: "h = next_handle s" and n: "next_handle s' = h + 1"
    using OpenArchive_counter_ahead [OF o assms(2)] by simp_all
  from h assms(3) have s: "h + 1 \<noteq> 0" "h < h + 1"
    by (simp_all add: word_less_successor)
  have "dom (handle_map s') = insert h (dom (handle_map s))"
    using o by (auto elim!: OpenArchive_Inr)
  moreover have "\<forall>k \<in> dom (handle_map s). k < h + 1"
  proof
    fix k assume "k \<in> dom (handle_map s)"
    with assms(2) h have "k < h" by (simp add: counter_ahead_def)
    then show "k < h + 1" using s(2) by (rule less_trans)
  qed
  ultimately show ?thesis using n s by (simp add: counter_ahead_def)
qed

lemma CloseArchive_keeps_counter_ahead:
  "counter_ahead s \<Longrightarrow> counter_ahead (snd (CloseArchive ext handle s))"
  by (auto simp: counter_ahead_def CloseArchive_def split: option.splits if_splits)

lemma late_counter_ahead: "counter_ahead late_Archives"
  by (simp add: counter_ahead_def late_Archives_def)

lemma late_open_wraps:
  "OpenArchive ex_ArchiveExt SaveData ''/a'' late_Archives =
     Some (Inr 0xFFFFFFFFFFFFFFFF, wrapped_Archives)"
  by (simp add: OpenArchive_def ex_ArchiveExt_def late_Archives_def wrapped_Archives_def
      skip_present.simps)

end
